theory Spec2Isabelle
  imports Main "HOL-Library.AList"
begin

section \<open>The Manus bridge of \<^verbatim>\<open>src/server.py\<close>\<close>

text \<open>
  The server is five tool functions over one helper. Four of them build one HTTP request,
  hand it to an \<^verbatim>\<open>httpx.Client\<close> and pass the response to
  \<^verbatim>\<open>_handle_response\<close>; the fifth returns a fixed mapping. The model keeps that
  shape: the values that travel are Python objects, an exception is the left summand of
  the result, and the requests issued are appended to a log in the world that every tool
  takes and returns.
\<close>

subsection \<open>Python values\<close>

text \<open>
  What \<^verbatim>\<open>json.loads\<close> yields and what the payloads hold. A dict is an association
  list in insertion order, with unique keys. A float is named by its \<^verbatim>\<open>repr\<close>, which
  determines it.
\<close>

datatype pyobj =
    PNone
  | PBool bool
  | PInt int
  | PFloat string
  | PStr string
  | PList "pyobj list"
  | PDict "(string \<times> pyobj) list"

text \<open>The exceptions that can leave a tool: a failure of the transport inside
  \<^verbatim>\<open>client.post\<close> or \<^verbatim>\<open>client.get\<close>, and the decoder's error of
  \<^verbatim>\<open>response.json()\<close>.\<close>

datatype exn = TransportError | JSONDecodeError

text \<open>\<^verbatim>\<open>d.get(k, default)\<close> and \<^verbatim>\<open>d[k] = v\<close> on a dict.\<close>

definition dict_get :: "(string \<times> pyobj) list \<Rightarrow> string \<Rightarrow> pyobj \<Rightarrow> pyobj" where
  "dict_get d k dflt = (case map_of d k of None \<Rightarrow> dflt | Some v \<Rightarrow> v)"

definition dict_set :: "(string \<times> pyobj) list \<Rightarrow> string \<Rightarrow> pyobj \<Rightarrow> (string \<times> pyobj) list" where
  "dict_set d k v = AList.update k v d"

text \<open>
  An argument of a call is left out or given; a parameter left out takes the default of
  the \<^verbatim>\<open>def\<close> line. A given \<^verbatim>\<open>Optional\<close> argument may still be \<^verbatim>\<open>None\<close>.
\<close>

datatype 'a arg = Omitted | Given 'a

fun bind_arg :: "'a arg \<Rightarrow> 'a \<Rightarrow> 'a" where
  "bind_arg Omitted dflt = dflt"
| "bind_arg (Given v) dflt = v"

text \<open>\<^verbatim>\<open>x or d\<close> for an \<^verbatim>\<open>Optional[str]\<close> and an \<^verbatim>\<open>Optional[int]\<close>:
  \<^verbatim>\<open>None\<close>, the empty string and zero are false, and so are they where \<^verbatim>\<open>if x:\<close>
  tests an argument.\<close>

fun str_or :: "string option \<Rightarrow> string \<Rightarrow> string" where
  "str_or None d = d"
| "str_or (Some s) d = (if s = [] then d else s)"

fun int_or :: "int option \<Rightarrow> int \<Rightarrow> int" where
  "int_or None d = d"
| "int_or (Some n) d = (if n = 0 then d else n)"

subsection \<open>Configuration, requests, responses\<close>

text \<open>The three module globals, read from the environment when the module is loaded.\<close>

record config =
  MANUS_API_KEY :: string
  MANUS_API_BASE :: string
  MANUS_AGENT_PROFILE :: string

datatype http_method = GET | POST

text \<open>What a tool hands to the client: the method, the URL, the headers, and the
  \<^verbatim>\<open>params=\<close> and \<^verbatim>\<open>json=\<close> keywords when the call passes them; the timeout is that of
  the client, in seconds.\<close>

record request =
  req_method :: http_method
  req_url :: string
  req_headers :: "(string \<times> string) list"
  req_params :: "(string \<times> pyobj) list option"
  req_json :: "(string \<times> pyobj) list option"
  req_timeout :: nat

text \<open>
  An \<^verbatim>\<open>httpx.Response\<close>, as far as the server looks at it: its status code, what
  \<^verbatim>\<open>response.json()\<close> gives (\<open>None\<close> when the body does not decode and the call raises),
  and the text \<^verbatim>\<open>str(e)\<close> of the \<^verbatim>\<open>HTTPStatusError\<close> that
  \<^verbatim>\<open>raise_for_status\<close> raises for it.
\<close>

record response =
  status_code :: int
  json :: "pyobj option"
  status_error :: string

text \<open>\<^verbatim>\<open>Response.is_success\<close>: the status is 2xx. \<^verbatim>\<open>raise_for_status\<close> returns for
  such a response and raises otherwise; \<open>Some e\<close> is the raised error's text.\<close>

definition is_success :: "response \<Rightarrow> bool" where
  "is_success r = (200 \<le> status_code r \<and> status_code r \<le> 299)"

definition raise_for_status :: "response \<Rightarrow> string option" where
  "raise_for_status r = (if is_success r then None else Some (status_error r))"

text \<open>The remote side: the answer to a request is a response, or the transport fails.\<close>

type_synonym net = "request \<Rightarrow> exn + response"

record world =
  sent :: "request list"

subsection \<open>The helpers\<close>

definition get_headers :: "config \<Rightarrow> (string \<times> string) list" where
  "get_headers cfg = [(''API_KEY'', MANUS_API_KEY cfg), (''Content-Type'', ''application/json'')]"

text \<open>
  A replacement field of an f-string formats its value with \<^verbatim>\<open>str\<close>: a string stands
  for itself; for any other decoded value the text is Python's, taken as the parameter
  \<open>py_str\<close>.
\<close>

definition fmt :: "(pyobj \<Rightarrow> string) \<Rightarrow> pyobj \<Rightarrow> string" where
  "fmt py_str v = (case v of PStr s \<Rightarrow> s | _ \<Rightarrow> py_str v)"

text \<open>
  \<^verbatim>\<open>_handle_response\<close>. Only the \<^verbatim>\<open>HTTPStatusError\<close> of \<^verbatim>\<open>raise_for_status\<close> is
  caught: on the 2xx path the decoder's error leaves the function. Inside the handler the
  bare \<^verbatim>\<open>except\<close> swallows both the decoder's error and the \<^verbatim>\<open>AttributeError\<close> of
  \<^verbatim>\<open>.get\<close> on a decoded value that is not a dict, and the first message stays.
\<close>

definition handle_response :: "(pyobj \<Rightarrow> string) \<Rightarrow> response \<Rightarrow> exn + pyobj" where
  "handle_response py_str response =
     (case raise_for_status response of
        None \<Rightarrow>
          (case json response of
             None \<Rightarrow> Inl JSONDecodeError
           | Some body \<Rightarrow> Inr body)
      | Some e \<Rightarrow>
          (let error_msg = ''Manus API Error: '' @ e;
               error_msg =
                 (case json response of
                    Some (PDict error_body) \<Rightarrow>
                      ''Manus API Error: '' @ fmt py_str (dict_get error_body ''message'' (PStr e))
                  | _ \<Rightarrow> error_msg)
           in Inr (PDict [(''error'', PStr error_msg),
                          (''status_code'', PInt (status_code response))])))"

text \<open>\<^verbatim>\<open>client.post(url, headers=..., json=...)\<close> and
  \<^verbatim>\<open>client.get(url, headers=..., params=...)\<close> of a client made with the given timeout:
  the request goes out, and the remote side's answer comes back.\<close>

definition client_post ::
  "net \<Rightarrow> nat \<Rightarrow> string \<Rightarrow> (string \<times> string) list \<Rightarrow> (string \<times> pyobj) list \<Rightarrow> world
     \<Rightarrow> (exn + response) \<times> world" where
  "client_post remote tmo url hdrs payload w =
     (let req = \<lparr>req_method = POST, req_url = url, req_headers = hdrs, req_params = None,
                 req_json = Some payload, req_timeout = tmo\<rparr>
      in (remote req, w\<lparr>sent := sent w @ [req]\<rparr>))"

definition client_get ::
  "net \<Rightarrow> nat \<Rightarrow> string \<Rightarrow> (string \<times> string) list \<Rightarrow> (string \<times> pyobj) list option \<Rightarrow> world
     \<Rightarrow> (exn + response) \<times> world" where
  "client_get remote tmo url hdrs ps w =
     (let req = \<lparr>req_method = GET, req_url = url, req_headers = hdrs, req_params = ps,
                 req_json = None, req_timeout = tmo\<rparr>
      in (remote req, w\<lparr>sent := sent w @ [req]\<rparr>))"

text \<open>\<^verbatim>\<open>return _handle_response(response)\<close>, reached only when the client returned.\<close>

definition handled :: "(pyobj \<Rightarrow> string) \<Rightarrow> (exn + response) \<times> world \<Rightarrow> (exn + pyobj) \<times> world" where
  "handled py_str rw =
     (case fst rw of
        Inl e \<Rightarrow> (Inl e, snd rw)
      | Inr response \<Rightarrow> (handle_response py_str response, snd rw))"

subsection \<open>The tools\<close>

definition create_task ::
  "(pyobj \<Rightarrow> string) \<Rightarrow> config \<Rightarrow> net \<Rightarrow> string \<Rightarrow> string option arg \<Rightarrow> string option arg
     \<Rightarrow> string option arg \<Rightarrow> world \<Rightarrow> (exn + pyobj) \<times> world" where
  "create_task py_str cfg remote prompt agent_profile_arg task_mode_arg project_id_arg w =
     (let agent_profile = bind_arg agent_profile_arg None;
          task_mode = bind_arg task_mode_arg (Some ''agent'');
          project_id = bind_arg project_id_arg None;
          url = MANUS_API_BASE cfg @ ''/tasks'';
          payload = [(''prompt'', PStr prompt),
                     (''agentProfile'', PStr (str_or agent_profile (MANUS_AGENT_PROFILE cfg))),
                     (''taskMode'', PStr (str_or task_mode ''agent''))];
          payload = (case project_id of
                       None \<Rightarrow> payload
                     | Some p \<Rightarrow> if p = [] then payload
                                else dict_set payload ''projectId'' (PStr p))
      in handled py_str (client_post remote 60 url (get_headers cfg) payload w))"

definition get_task_status ::
  "(pyobj \<Rightarrow> string) \<Rightarrow> config \<Rightarrow> net \<Rightarrow> string \<Rightarrow> world \<Rightarrow> (exn + pyobj) \<times> world" where
  "get_task_status py_str cfg remote task_id w =
     (let url = MANUS_API_BASE cfg @ ''/tasks/'' @ task_id
      in handled py_str (client_get remote 30 url (get_headers cfg) None w))"

definition list_tasks ::
  "(pyobj \<Rightarrow> string) \<Rightarrow> config \<Rightarrow> net \<Rightarrow> string option arg \<Rightarrow> int option arg
     \<Rightarrow> string option arg \<Rightarrow> world \<Rightarrow> (exn + pyobj) \<times> world" where
  "list_tasks py_str cfg remote status_arg limit_arg project_id_arg w =
     (let status = bind_arg status_arg None;
          limit = bind_arg limit_arg (Some 20);
          project_id = bind_arg project_id_arg None;
          url = MANUS_API_BASE cfg @ ''/tasks'';
          params = [(''limit'', PInt (int_or limit 20))];
          params = (case status of
                      None \<Rightarrow> params
                    | Some s \<Rightarrow> if s = [] then params
                               else dict_set params ''status'' (PList [PStr s]));
          params = (case project_id of
                      None \<Rightarrow> params
                    | Some p \<Rightarrow> if p = [] then params
                               else dict_set params ''project_id'' (PStr p))
      in handled py_str (client_get remote 30 url (get_headers cfg) (Some params) w))"

definition continue_task ::
  "(pyobj \<Rightarrow> string) \<Rightarrow> config \<Rightarrow> net \<Rightarrow> string \<Rightarrow> string \<Rightarrow> world \<Rightarrow> (exn + pyobj) \<times> world" where
  "continue_task py_str cfg remote task_id prompt w =
     (let url = MANUS_API_BASE cfg @ ''/tasks'';
          payload = [(''prompt'', PStr prompt),
                     (''agentProfile'', PStr (MANUS_AGENT_PROFILE cfg)),
                     (''taskId'', PStr task_id)]
      in handled py_str (client_post remote 60 url (get_headers cfg) payload w))"

definition get_server_info :: "config \<Rightarrow> world \<Rightarrow> pyobj \<times> world" where
  "get_server_info cfg w =
     (PDict [(''server_name'', PStr ''Manus AI MCP Server''),
             (''version'', PStr ''1.0.0''),
             (''description'', PStr ''Bridge between Poke AI and Manus AI''),
             (''manus_api_base'', PStr (MANUS_API_BASE cfg)),
             (''agent_profile'', PStr (MANUS_AGENT_PROFILE cfg))], w)"

subsection \<open>Reading a request, and fixed surroundings for concrete runs\<close>

definition payload_field :: "request \<Rightarrow> string \<Rightarrow> pyobj option" where
  "payload_field req k = (case req_json req of None \<Rightarrow> None | Some d \<Rightarrow> map_of d k)"

definition param_field :: "request \<Rightarrow> string \<Rightarrow> pyobj option" where
  "param_field req k = (case req_params req of None \<Rightarrow> None | Some d \<Rightarrow> map_of d k)"

text \<open>A remote side that answers every request with the same response, a rendering
  for formatted values that are not strings (no concrete run below formats one), the
  configuration of an environment that sets only the key, and a world in which nothing
  has been sent.\<close>

definition reply :: "response \<Rightarrow> net" where
  "reply r req = Inr r"

definition plain_str :: "pyobj \<Rightarrow> string" where
  "plain_str v = ''<object>''"

definition env_defaults :: config where
  "env_defaults = \<lparr>MANUS_API_KEY = ''secret'', MANUS_API_BASE = ''https://api.manus.im/v1'',
                    MANUS_AGENT_PROFILE = ''manus-1.6''\<rparr>"

definition fresh :: world where
  "fresh = \<lparr>sent = []\<rparr>"

section \<open>What one call does\<close>

text \<open>Each remote tool sends exactly one request; its result is the transport's failure, or
  what \<^verbatim>\<open>_handle_response\<close> makes of the response.\<close>

lemma handled_post:
  "handled py (client_post remote tmo url hdrs payload w) =
     (let req = \<lparr>req_method = POST, req_url = url, req_headers = hdrs, req_params = None,
                 req_json = Some payload, req_timeout = tmo\<rparr>
      in (case remote req of Inl e \<Rightarrow> Inl e | Inr r \<Rightarrow> handle_response py r,
          w\<lparr>sent := sent w @ [req]\<rparr>))"
  by (simp add: handled_def client_post_def Let_def split: sum.splits)

lemma handled_get:
  "handled py (client_get remote tmo url hdrs ps w) =
     (let req = \<lparr>req_method = GET, req_url = url, req_headers = hdrs, req_params = ps,
                 req_json = None, req_timeout = tmo\<rparr>
      in (case remote req of Inl e \<Rightarrow> Inl e | Inr r \<Rightarrow> handle_response py r,
          w\<lparr>sent := sent w @ [req]\<rparr>))"
  by (simp add: handled_def client_get_def Let_def split: sum.splits)

lemma handled_post_reply:
  "handled py (client_post (reply r) tmo url hdrs payload w) =
     (handle_response py r,
      w\<lparr>sent := sent w @ [\<lparr>req_method = POST, req_url = url, req_headers = hdrs,
                             req_params = None, req_json = Some payload, req_timeout = tmo\<rparr>]\<rparr>)"
  by (simp add: handled_post reply_def)

lemma handled_get_reply:
  "handled py (client_get (reply r) tmo url hdrs ps w) =
     (handle_response py r,
      w\<lparr>sent := sent w @ [\<lparr>req_method = GET, req_url = url, req_headers = hdrs,
                             req_params = ps, req_json = None, req_timeout = tmo\<rparr>]\<rparr>)"
  by (simp add: handled_get reply_def)

lemma fst_create_task_reply:
  "fst (create_task py cfg (reply r) prompt ap tm pid w) = handle_response py r"
  by (simp add: create_task_def Let_def handled_post_reply)

lemma fst_get_task_status_reply:
  "fst (get_task_status py cfg (reply r) task_id w) = handle_response py r"
  by (simp add: get_task_status_def Let_def handled_get_reply)

lemma fst_list_tasks_reply:
  "fst (list_tasks py cfg (reply r) st lim pid w) = handle_response py r"
  by (simp add: list_tasks_def Let_def handled_get_reply)

lemma fst_continue_task_reply:
  "fst (continue_task py cfg (reply r) task_id prompt w) = handle_response py r"
  by (simp add: continue_task_def Let_def handled_get_reply handled_post_reply)

lemma handle_response_success:
  "is_success r \<Longrightarrow> handle_response py r = (case json r of None \<Rightarrow> Inl JSONDecodeError | Some b \<Rightarrow> Inr b)"
  by (simp add: handle_response_def raise_for_status_def)

lemma handle_response_failure:
  "\<not> is_success r \<Longrightarrow> \<exists>msg. handle_response py r =
      Inr (PDict [(''error'', PStr (''Manus API Error: '' @ msg)), (''status_code'', PInt (status_code r))])"
  by (simp add: handle_response_def raise_for_status_def Let_def split: option.splits pyobj.splits)

lemma create_task_sent:
  "sent (snd (create_task py cfg remote prompt ap tm pid w)) =
     sent w @ [\<lparr>req_method = POST, req_url = MANUS_API_BASE cfg @ ''/tasks'',
                 req_headers = get_headers cfg, req_params = None,
                 req_json = Some
                   ([(''prompt'', PStr prompt),
                     (''agentProfile'', PStr (str_or (bind_arg ap None) (MANUS_AGENT_PROFILE cfg))),
                     (''taskMode'', PStr (str_or (bind_arg tm (Some ''agent'')) ''agent''))]
                    @ (case bind_arg pid None of
                         None \<Rightarrow> []
                       | Some p \<Rightarrow> if p = [] then [] else [(''projectId'', PStr p)])),
                 req_timeout = 60\<rparr>]"
  by (simp add: create_task_def Let_def handled_post dict_set_def split: option.splits)

lemma list_tasks_sent:
  "sent (snd (list_tasks py cfg remote st lim pid w)) =
     sent w @ [\<lparr>req_method = GET, req_url = MANUS_API_BASE cfg @ ''/tasks'',
                 req_headers = get_headers cfg,
                 req_params = Some
                   ([(''limit'', PInt (int_or (bind_arg lim (Some 20)) 20))]
                    @ (case bind_arg st None of
                         None \<Rightarrow> []
                       | Some s \<Rightarrow> if s = [] then [] else [(''status'', PList [PStr s])])
                    @ (case bind_arg pid None of
                         None \<Rightarrow> []
                       | Some p \<Rightarrow> if p = [] then [] else [(''project_id'', PStr p)])),
                 req_json = None, req_timeout = 30\<rparr>]"
  by (simp add: list_tasks_def Let_def handled_get dict_set_def split: option.splits)

lemma continue_task_sent:
  "sent (snd (continue_task py cfg remote task_id prompt w)) =
     sent w @ [\<lparr>req_method = POST, req_url = MANUS_API_BASE cfg @ ''/tasks'',
                 req_headers = get_headers cfg, req_params = None,
                 req_json = Some [(''prompt'', PStr prompt),
                                  (''agentProfile'', PStr (MANUS_AGENT_PROFILE cfg)),
                                  (''taskId'', PStr task_id)],
                 req_timeout = 60\<rparr>]"
  by (simp add: continue_task_def Let_def handled_post)

lemma get_task_status_sent:
  "sent (snd (get_task_status py cfg remote task_id w)) =
     sent w @ [\<lparr>req_method = GET, req_url = MANUS_API_BASE cfg @ ''/tasks/'' @ task_id,
                 req_headers = get_headers cfg, req_params = None,
                 req_json = None, req_timeout = 30\<rparr>]"
  by (simp add: get_task_status_def Let_def handled_get)

section \<open>The claims\<close>

subsection \<open>C1: every response ends in one of the two envelopes\<close>

text \<open>
  As stated, C1 fails: a 2xx response whose body does not decode (a 204 with an empty
  body) is not reduced to an envelope. \<^verbatim>\<open>raise_for_status\<close> returns, the decoder's
  error of \<^verbatim>\<open>response.json()\<close> is not an \<^verbatim>\<open>HTTPStatusError\<close>, and it leaves the
  tool.
\<close>

theorem envelope_counterexample:
  "is_success \<lparr>status_code = 204, json = None, status_error = []\<rparr> \<and>
   fst (get_task_status plain_str env_defaults
          (reply \<lparr>status_code = 204, json = None, status_error = []\<rparr>) ''t1'' fresh)
     = Inl JSONDecodeError"
  by (simp add: fst_get_task_status_reply handle_response_success is_success_def)

text \<open>
  C1, amended: for every response that is not 2xx, or is 2xx with a body that decodes as
  JSON, each of \<^verbatim>\<open>create_task\<close>, \<^verbatim>\<open>get_task_status\<close>, \<^verbatim>\<open>list_tasks\<close> and
  \<^verbatim>\<open>continue_task\<close> returns a value, and that value is the decoded body when the
  status is 2xx and a mapping of exactly \<^verbatim>\<open>error\<close> (a string) and \<^verbatim>\<open>status_code\<close> (the
  response's status) otherwise.
\<close>

theorem response_envelope:
  assumes "\<not> is_success r \<or> json r \<noteq> None"
  shows "\<exists>v. fst (create_task py cfg (reply r) prompt ap tm pid w) = Inr v
           \<and> fst (get_task_status py cfg (reply r) task_id w) = Inr v
           \<and> fst (list_tasks py cfg (reply r) st lim lpid w) = Inr v
           \<and> fst (continue_task py cfg (reply r) ctask cprompt w) = Inr v
           \<and> (if is_success r then json r = Some v
              else \<exists>msg. v = PDict [(''error'', PStr msg), (''status_code'', PInt (status_code r))])"
proof (cases "is_success r")
  case True
  with assms obtain b where b: "json r = Some b" by auto
  with True have "handle_response py r = Inr b"
    by (simp add: handle_response_success)
  with True b show ?thesis
    by (simp add: fst_create_task_reply fst_get_task_status_reply fst_list_tasks_reply
        fst_continue_task_reply)
next
  case False
  then obtain msg where "handle_response py r =
      Inr (PDict [(''error'', PStr (''Manus API Error: '' @ msg)), (''status_code'', PInt (status_code r))])"
    using handle_response_failure by blast
  with False show ?thesis
    by (simp add: fst_create_task_reply fst_get_task_status_reply fst_list_tasks_reply
        fst_continue_task_reply)
qed

text \<open>The theorem at a 200 response carrying \<^verbatim>\<open>{"task_id": "t1"}\<close>.\<close>

theorem response_envelope_witness:
  "is_success \<lparr>status_code = 200, json = Some (PDict [(''task_id'', PStr ''t1'')]), status_error = []\<rparr>
   \<and> json \<lparr>status_code = 200, json = Some (PDict [(''task_id'', PStr ''t1'')]), status_error = []\<rparr>
       = Some (PDict [(''task_id'', PStr ''t1'')])
   \<and> fst (create_task plain_str env_defaults
          (reply \<lparr>status_code = 200, json = Some (PDict [(''task_id'', PStr ''t1'')]), status_error = []\<rparr>)
          ''hello'' Omitted Omitted Omitted fresh) = Inr (PDict [(''task_id'', PStr ''t1'')])
   \<and> fst (list_tasks plain_str env_defaults
          (reply \<lparr>status_code = 200, json = Some (PDict [(''task_id'', PStr ''t1'')]), status_error = []\<rparr>)
          Omitted Omitted Omitted fresh) = Inr (PDict [(''task_id'', PStr ''t1'')])"
  using response_envelope [of "\<lparr>status_code = 200, json = Some (PDict [(''task_id'', PStr ''t1'')]), status_error = []\<rparr>"
      plain_str env_defaults "''hello''" Omitted Omitted Omitted fresh "''t1''" Omitted Omitted Omitted "''t1''" "''more''"]
  by (simp add: is_success_def)

subsection \<open>C2: a 404 that says why\<close>

text \<open>
  C2: for every remote-calling tool, a response with status 404 and JSON body
  \<^verbatim>\<open>{"message": "not found"}\<close> yields the return value
  \<^verbatim>\<open>{"error": "Manus API Error: not found", "status_code": 404}\<close>.
\<close>

theorem not_found_envelope:
  assumes "status_code r = 404"
    and "json r = Some (PDict [(''message'', PStr ''not found'')])"
  shows "fst (create_task py cfg (reply r) prompt ap tm pid w)
           = Inr (PDict [(''error'', PStr ''Manus API Error: not found''), (''status_code'', PInt 404)])
       \<and> fst (get_task_status py cfg (reply r) task_id w)
           = Inr (PDict [(''error'', PStr ''Manus API Error: not found''), (''status_code'', PInt 404)])
       \<and> fst (list_tasks py cfg (reply r) st lim lpid w)
           = Inr (PDict [(''error'', PStr ''Manus API Error: not found''), (''status_code'', PInt 404)])
       \<and> fst (continue_task py cfg (reply r) ctask cprompt w)
           = Inr (PDict [(''error'', PStr ''Manus API Error: not found''), (''status_code'', PInt 404)])"
proof -
  have "handle_response py r
          = Inr (PDict [(''error'', PStr ''Manus API Error: not found''), (''status_code'', PInt 404)])"
    using assms
    by (simp add: handle_response_def raise_for_status_def is_success_def dict_get_def fmt_def)
  then show ?thesis
    by (simp add: fst_create_task_reply fst_get_task_status_reply fst_list_tasks_reply
        fst_continue_task_reply)
qed

text \<open>The theorem at such a 404 response.\<close>

theorem not_found_envelope_witness:
  "status_code \<lparr>status_code = 404, json = Some (PDict [(''message'', PStr ''not found'')]),
                 status_error = ''Client error''\<rparr> = 404
   \<and> json \<lparr>status_code = 404, json = Some (PDict [(''message'', PStr ''not found'')]),
            status_error = ''Client error''\<rparr> = Some (PDict [(''message'', PStr ''not found'')])
   \<and> fst (get_task_status plain_str env_defaults
          (reply \<lparr>status_code = 404, json = Some (PDict [(''message'', PStr ''not found'')]),
                   status_error = ''Client error''\<rparr>) ''t1'' fresh)
       = Inr (PDict [(''error'', PStr ''Manus API Error: not found''), (''status_code'', PInt 404)])
   \<and> fst (continue_task plain_str env_defaults
          (reply \<lparr>status_code = 404, json = Some (PDict [(''message'', PStr ''not found'')]),
                   status_error = ''Client error''\<rparr>) ''t1'' ''go on'' fresh)
       = Inr (PDict [(''error'', PStr ''Manus API Error: not found''), (''status_code'', PInt 404)])"
  using not_found_envelope [of "\<lparr>status_code = 404, json = Some (PDict [(''message'', PStr ''not found'')]),
                   status_error = ''Client error''\<rparr>" plain_str env_defaults "''hello''" Omitted Omitted Omitted
                   fresh "''t1''" Omitted Omitted Omitted "''t1''" "''go on''"]
  by simp

subsection \<open>C3: an error status with a body that is not JSON\<close>

text \<open>
  C3: for every remote-calling tool, a response with a non-2xx status whose body does not
  decode as JSON yields a mapping whose \<^verbatim>\<open>error\<close> is a non-empty string (the prefix
  followed by the text of the status error) and whose \<^verbatim>\<open>status_code\<close> is the
  response's status; the tool returns, no exception leaves it.
\<close>

theorem undecodable_error_envelope:
  assumes "\<not> is_success r" and "json r = None"
  shows "''Manus API Error: '' @ status_error r \<noteq> []
       \<and> fst (create_task py cfg (reply r) prompt ap tm pid w)
           = Inr (PDict [(''error'', PStr (''Manus API Error: '' @ status_error r)),
                         (''status_code'', PInt (status_code r))])
       \<and> fst (get_task_status py cfg (reply r) task_id w)
           = Inr (PDict [(''error'', PStr (''Manus API Error: '' @ status_error r)),
                         (''status_code'', PInt (status_code r))])
       \<and> fst (list_tasks py cfg (reply r) st lim lpid w)
           = Inr (PDict [(''error'', PStr (''Manus API Error: '' @ status_error r)),
                         (''status_code'', PInt (status_code r))])
       \<and> fst (continue_task py cfg (reply r) ctask cprompt w)
           = Inr (PDict [(''error'', PStr (''Manus API Error: '' @ status_error r)),
                         (''status_code'', PInt (status_code r))])"
proof -
  have "handle_response py r
          = Inr (PDict [(''error'', PStr (''Manus API Error: '' @ status_error r)),
                        (''status_code'', PInt (status_code r))])"
    using assms by (simp add: handle_response_def raise_for_status_def)
  then show ?thesis
    by (simp add: fst_create_task_reply fst_get_task_status_reply fst_list_tasks_reply
        fst_continue_task_reply)
qed

text \<open>The theorem at a 500 response with a body that is not JSON.\<close>

theorem undecodable_error_envelope_witness:
  "status_code \<lparr>status_code = 500, json = None, status_error = ''Server error''\<rparr> = 500
   \<and> json \<lparr>status_code = 500, json = None, status_error = ''Server error''\<rparr> = None
   \<and> fst (create_task plain_str env_defaults
          (reply \<lparr>status_code = 500, json = None, status_error = ''Server error''\<rparr>)
          ''hello'' Omitted Omitted Omitted fresh)
       = Inr (PDict [(''error'', PStr ''Manus API Error: Server error''), (''status_code'', PInt 500)])
   \<and> fst (list_tasks plain_str env_defaults
          (reply \<lparr>status_code = 500, json = None, status_error = ''Server error''\<rparr>)
          Omitted Omitted Omitted fresh)
       = Inr (PDict [(''error'', PStr ''Manus API Error: Server error''), (''status_code'', PInt 500)])"
  using undecodable_error_envelope [of "\<lparr>status_code = 500, json = None, status_error = ''Server error''\<rparr>"
      plain_str env_defaults "''hello''" Omitted Omitted Omitted fresh "''t1''" Omitted Omitted Omitted
      "''t1''" "''go on''"]
  by (simp add: is_success_def)

subsection \<open>C4: the agent profile of a new task\<close>

text \<open>
  As stated, C4 fails: \<^verbatim>\<open>agent_profile or MANUS_AGENT_PROFILE\<close> also replaces an
  \<^verbatim>\<open>agent_profile\<close> that the caller supplied as the empty string. With the profile
  given as \<^verbatim>\<open>""\<close> the body carries \<^verbatim>\<open>"manus-1.6"\<close>, which is not the supplied value.
\<close>

theorem agent_profile_counterexample:
  "sent (snd (create_task plain_str env_defaults
                (reply \<lparr>status_code = 200, json = Some (PDict []), status_error = []\<rparr>)
                ''hello'' (Given (Some [])) Omitted Omitted fresh))
     = [\<lparr>req_method = POST, req_url = ''https://api.manus.im/v1/tasks'',
          req_headers = [(''API_KEY'', ''secret''), (''Content-Type'', ''application/json'')],
          req_params = None,
          req_json = Some [(''prompt'', PStr ''hello''),
                           (''agentProfile'', PStr ''manus-1.6''),
                           (''taskMode'', PStr ''agent'')],
          req_timeout = 60\<rparr>]"
  by (simp add: create_task_sent env_defaults_def fresh_def get_headers_def)

text \<open>The field, in the code's own terms.\<close>

lemma create_task_profile_field:
  "\<exists>req. sent (snd (create_task py cfg remote prompt ap tm pid w)) = sent w @ [req]
       \<and> req_method req = POST
       \<and> payload_field req ''agentProfile''
           = Some (PStr (str_or (bind_arg ap None) (MANUS_AGENT_PROFILE cfg)))"
  by (simp add: create_task_sent payload_field_def)

text \<open>
  C4, amended: for every call to \<^verbatim>\<open>create_task\<close> the one request sent is a POST whose
  JSON body's \<^verbatim>\<open>agentProfile\<close> equals the caller-supplied \<^verbatim>\<open>agent_profile\<close> when one
  is present and not the empty string, and equals the configured default profile when it
  is left out, \<^verbatim>\<open>None\<close> or the empty string.
\<close>

theorem create_task_agent_profile:
  "\<exists>req. sent (snd (create_task py cfg remote prompt ap tm pid w)) = sent w @ [req]
       \<and> req_method req = POST
       \<and> (\<forall>p. ap = Given (Some p) \<longrightarrow> p \<noteq> [] \<longrightarrow>
              payload_field req ''agentProfile'' = Some (PStr p))
       \<and> (ap = Omitted \<or> ap = Given None \<or> ap = Given (Some []) \<longrightarrow>
              payload_field req ''agentProfile'' = Some (PStr (MANUS_AGENT_PROFILE cfg)))"
proof -
  obtain req where req:
    "sent (snd (create_task py cfg remote prompt ap tm pid w)) = sent w @ [req]"
    "req_method req = POST"
    "payload_field req ''agentProfile''
       = Some (PStr (str_or (bind_arg ap None) (MANUS_AGENT_PROFILE cfg)))"
    using create_task_profile_field by blast
  have given: "payload_field req ''agentProfile'' = Some (PStr p)"
    if "ap = Given (Some p)" and "p \<noteq> []" for p
    using req(3) that by simp
  have dflt: "payload_field req ''agentProfile'' = Some (PStr (MANUS_AGENT_PROFILE cfg))"
    if "ap = Omitted \<or> ap = Given None \<or> ap = Given (Some [])"
    using req(3) that by (elim disjE) simp_all
  from req(1,2) given dflt show ?thesis
    by (intro exI [of _ req]) simp
qed

text \<open>The theorem at a call that names \<^verbatim>\<open>manus-1.6-lite\<close> and at one that names no
  profile.\<close>

theorem create_task_agent_profile_witness:
  "(\<exists>req. sent (snd (create_task plain_str env_defaults
                      (reply \<lparr>status_code = 200, json = Some (PDict []), status_error = []\<rparr>)
                      ''hello'' (Given (Some ''manus-1.6-lite'')) Omitted Omitted fresh))
             = sent fresh @ [req]
         \<and> req_method req = POST
         \<and> payload_field req ''agentProfile'' = Some (PStr ''manus-1.6-lite''))
   \<and> (\<exists>req. sent (snd (create_task plain_str env_defaults
                      (reply \<lparr>status_code = 200, json = Some (PDict []), status_error = []\<rparr>)
                      ''hello'' Omitted Omitted Omitted fresh))
             = sent fresh @ [req]
         \<and> req_method req = POST
         \<and> payload_field req ''agentProfile'' = Some (PStr ''manus-1.6''))"
  using create_task_agent_profile [of plain_str env_defaults
      "reply \<lparr>status_code = 200, json = Some (PDict []), status_error = []\<rparr>"
      "''hello''" "Given (Some ''manus-1.6-lite'')" Omitted Omitted fresh]
    create_task_agent_profile [of plain_str env_defaults
      "reply \<lparr>status_code = 200, json = Some (PDict []), status_error = []\<rparr>"
      "''hello''" Omitted Omitted Omitted fresh]
  by (simp add: env_defaults_def)

subsection \<open>C5: continuing a task always uses the configured profile\<close>

text \<open>
  C5: for every call \<^verbatim>\<open>continue_task(task_id, prompt)\<close> the one request sent is a POST
  whose JSON body holds \<^verbatim>\<open>prompt\<close>, \<^verbatim>\<open>taskId\<close> equal to \<^verbatim>\<open>task_id\<close>, and
  \<^verbatim>\<open>agentProfile\<close> equal to the configured default profile; the tool has no parameter
  through which a caller could choose another profile.
\<close>

theorem continue_task_payload:
  "\<exists>req. sent (snd (continue_task py cfg remote task_id prompt w)) = sent w @ [req]
       \<and> req_method req = POST
       \<and> req_url req = MANUS_API_BASE cfg @ ''/tasks''
       \<and> req_json req = Some [(''prompt'', PStr prompt),
                               (''agentProfile'', PStr (MANUS_AGENT_PROFILE cfg)),
                               (''taskId'', PStr task_id)]
       \<and> payload_field req ''prompt'' = Some (PStr prompt)
       \<and> payload_field req ''taskId'' = Some (PStr task_id)
       \<and> payload_field req ''agentProfile'' = Some (PStr (MANUS_AGENT_PROFILE cfg))"
  by (simp add: continue_task_sent payload_field_def)

subsection \<open>C6: the task mode left out\<close>

text \<open>
  C6: for every call to \<^verbatim>\<open>create_task\<close> in which \<^verbatim>\<open>task_mode\<close> is left out, the
  JSON body's \<^verbatim>\<open>taskMode\<close> is \<^verbatim>\<open>"agent"\<close>.
\<close>

theorem create_task_default_mode:
  "\<exists>req. sent (snd (create_task py cfg remote prompt ap Omitted pid w)) = sent w @ [req]
       \<and> req_method req = POST
       \<and> payload_field req ''taskMode'' = Some (PStr ''agent'')"
  by (simp add: create_task_sent payload_field_def)

subsection \<open>C7: listing with no arguments\<close>

text \<open>
  C7: a call to \<^verbatim>\<open>list_tasks\<close> with no arguments sends a GET whose query parameters
  hold \<^verbatim>\<open>limit=20\<close> and neither \<^verbatim>\<open>status\<close> nor \<^verbatim>\<open>project_id\<close>.
\<close>

theorem list_tasks_no_arguments:
  "\<exists>req. sent (snd (list_tasks py cfg remote Omitted Omitted Omitted w)) = sent w @ [req]
       \<and> req_method req = GET
       \<and> req_url req = MANUS_API_BASE cfg @ ''/tasks''
       \<and> req_params req = Some [(''limit'', PInt 20)]
       \<and> param_field req ''limit'' = Some (PInt 20)
       \<and> param_field req ''status'' = None
       \<and> param_field req ''project_id'' = None"
  by (simp add: list_tasks_sent param_field_def)

subsection \<open>C8: the status filter\<close>

text \<open>
  As stated, C8 fails: \<^verbatim>\<open>if status:\<close> is false for a \<^verbatim>\<open>status\<close> that is present but
  empty, and the request then carries no \<^verbatim>\<open>status\<close> parameter at all.
\<close>

theorem status_filter_counterexample:
  "sent (snd (list_tasks plain_str env_defaults
                (reply \<lparr>status_code = 200, json = Some (PDict []), status_error = []\<rparr>)
                (Given (Some [])) Omitted Omitted fresh))
     = [\<lparr>req_method = GET, req_url = ''https://api.manus.im/v1/tasks'',
          req_headers = [(''API_KEY'', ''secret''), (''Content-Type'', ''application/json'')],
          req_params = Some [(''limit'', PInt 20)],
          req_json = None,
          req_timeout = 30\<rparr>]"
  by (simp add: list_tasks_sent env_defaults_def fresh_def get_headers_def)

text \<open>
  C8, amended: for every call to \<^verbatim>\<open>list_tasks\<close> with a \<^verbatim>\<open>status\<close> argument that is
  present and not the empty string, the one request sent is a GET whose \<^verbatim>\<open>status\<close>
  query parameter is the single-element list holding that value.
\<close>

theorem list_tasks_status_filter:
  assumes "s \<noteq> []"
  shows "\<exists>req. sent (snd (list_tasks py cfg remote (Given (Some s)) lim pid w)) = sent w @ [req]
       \<and> req_method req = GET
       \<and> param_field req ''status'' = Some (PList [PStr s])"
  using assms by (simp add: list_tasks_sent param_field_def split: option.splits)

text \<open>The theorem at \<^verbatim>\<open>status="completed"\<close>.\<close>

theorem list_tasks_status_filter_witness:
  "\<exists>req. sent (snd (list_tasks plain_str env_defaults
                      (reply \<lparr>status_code = 200, json = Some (PDict []), status_error = []\<rparr>)
                      (Given (Some ''completed'')) Omitted Omitted fresh))
             = sent fresh @ [req]
       \<and> req_method req = GET
       \<and> param_field req ''status'' = Some (PList [PStr ''completed''])"
  using list_tasks_status_filter [of "''completed''" plain_str env_defaults
      "reply \<lparr>status_code = 200, json = Some (PDict []), status_error = []\<rparr>" Omitted Omitted fresh]
  by simp

subsection \<open>C9: the server's own description\<close>

text \<open>
  C9: every call to \<^verbatim>\<open>get_server_info\<close> sends nothing (the world it returns is the
  world it was given) and returns a mapping whose \<^verbatim>\<open>manus_api_base\<close> and
  \<^verbatim>\<open>agent_profile\<close> are the configured base URL and default profile.
\<close>

theorem get_server_info_local:
  "snd (get_server_info cfg w) = w
   \<and> sent (snd (get_server_info cfg w)) = sent w
   \<and> (\<exists>d. fst (get_server_info cfg w) = PDict d
          \<and> map_of d ''manus_api_base'' = Some (PStr (MANUS_API_BASE cfg))
          \<and> map_of d ''agent_profile'' = Some (PStr (MANUS_AGENT_PROFILE cfg)))"
  by (simp add: get_server_info_def)

subsection \<open>C10: false values of optional arguments\<close>

text \<open>One argument at a time, the others as they come.\<close>

lemma create_task_empty_profile:
  "create_task py cfg remote prompt (Given (Some [])) tm pid w
     = create_task py cfg remote prompt Omitted tm pid w"
  by (simp add: create_task_def)

lemma create_task_empty_mode:
  "create_task py cfg remote prompt ap (Given (Some [])) pid w
     = create_task py cfg remote prompt ap Omitted pid w"
  by (simp add: create_task_def)

lemma create_task_empty_project:
  "create_task py cfg remote prompt ap tm (Given (Some [])) w
     = create_task py cfg remote prompt ap tm Omitted w"
  by (simp add: create_task_def)

lemma list_tasks_empty_status:
  "list_tasks py cfg remote (Given (Some [])) lim lpid w
     = list_tasks py cfg remote Omitted lim lpid w"
  by (simp add: list_tasks_def)

lemma list_tasks_empty_project:
  "list_tasks py cfg remote st lim (Given (Some [])) w
     = list_tasks py cfg remote st lim Omitted w"
  by (simp add: list_tasks_def)

lemma list_tasks_zero_limit:
  "list_tasks py cfg remote st (Given (Some 0)) lpid w
     = list_tasks py cfg remote st Omitted lpid w"
  by (simp add: list_tasks_def)

lemma list_tasks_none_limit:
  "list_tasks py cfg remote st (Given None) lpid w
     = list_tasks py cfg remote st Omitted lpid w"
  by (simp add: list_tasks_def)

text \<open>
  C10: a false value of an optional argument acts as the argument left out. The empty
  string for \<^verbatim>\<open>agent_profile\<close>, \<^verbatim>\<open>task_mode\<close> or \<^verbatim>\<open>project_id\<close> of
  \<^verbatim>\<open>create_task\<close>, the empty string for \<^verbatim>\<open>status\<close> or \<^verbatim>\<open>project_id\<close> of
  \<^verbatim>\<open>list_tasks\<close>, and \<^verbatim>\<open>limit=0\<close> or \<^verbatim>\<open>limit=None\<close> give the very call that
  omits the argument (same result, same request). So the default is put in
  (\<^verbatim>\<open>agentProfile\<close> the configured one, \<^verbatim>\<open>taskMode\<close> \<^verbatim>\<open>"agent"\<close>, \<^verbatim>\<open>limit\<close> 20)
  and \<^verbatim>\<open>projectId\<close>, \<^verbatim>\<open>status\<close> and \<^verbatim>\<open>project_id\<close> are left out of the request.
\<close>

theorem falsy_as_omitted:
  "create_task py cfg remote prompt (Given (Some [])) tm pid w
     = create_task py cfg remote prompt Omitted tm pid w
   \<and> create_task py cfg remote prompt ap (Given (Some [])) pid w
     = create_task py cfg remote prompt ap Omitted pid w
   \<and> create_task py cfg remote prompt ap tm (Given (Some [])) w
     = create_task py cfg remote prompt ap tm Omitted w
   \<and> list_tasks py cfg remote (Given (Some [])) lim lpid w
     = list_tasks py cfg remote Omitted lim lpid w
   \<and> list_tasks py cfg remote st lim (Given (Some [])) w
     = list_tasks py cfg remote st lim Omitted w
   \<and> list_tasks py cfg remote st (Given (Some 0)) lpid w
     = list_tasks py cfg remote st Omitted lpid w
   \<and> list_tasks py cfg remote st (Given None) lpid w
     = list_tasks py cfg remote st Omitted lpid w
   \<and> (\<exists>req. sent (snd (create_task py cfg remote prompt
                          (Given (Some [])) (Given (Some [])) (Given (Some [])) w)) = sent w @ [req]
         \<and> req_json req = Some [(''prompt'', PStr prompt),
                                 (''agentProfile'', PStr (MANUS_AGENT_PROFILE cfg)),
                                 (''taskMode'', PStr ''agent'')]
         \<and> payload_field req ''projectId'' = None)
   \<and> (\<exists>req. sent (snd (list_tasks py cfg remote
                          (Given (Some [])) (Given (Some 0)) (Given (Some [])) w)) = sent w @ [req]
         \<and> req_params req = Some [(''limit'', PInt 20)]
         \<and> param_field req ''status'' = None
         \<and> param_field req ''project_id'' = None)
   \<and> (\<exists>req. sent (snd (list_tasks py cfg remote Omitted (Given None) Omitted w)) = sent w @ [req]
         \<and> req_params req = Some [(''limit'', PInt 20)])"
  by (simp add: create_task_empty_profile create_task_empty_mode create_task_empty_project
      list_tasks_empty_status list_tasks_empty_project list_tasks_zero_limit
      list_tasks_none_limit create_task_sent list_tasks_sent payload_field_def param_field_def)

end
